theory Spec2Isabelle
  imports Main "HOL-Library.Word"
begin

text \<open>
  A shallow embedding of \<open>CrawleeNode.execute\<close> and \<open>appendTimestampToUrl\<close>
  (\<open>src/nodes/CrawleeNode/CrawleeNode.node.ts\<close>). The source's mutable arrays are threaded
  through as a state, a thrown value is a result, and every call into the workflow host,
  the crawler library or the runtime is a field of an environment, so that each theorem
  holds for every host, every crawl and every clock.
\<close>

section \<open>JavaScript values used by the node\<close>

text \<open>
  A JavaScript string is a sequence of UTF-16 code units; \<open>length\<close>, \<open>substring\<close>,
  \<open>includes\<close> and \<open>trim\<close> all work on code units. \<open>str\<close> embeds an ASCII literal of the
  source.
\<close>

type_synonym jsstring = "16 word list"

definition cu :: "char \<Rightarrow> 16 word" where
  "cu c = of_nat (of_char c)"

definition str :: "string \<Rightarrow> jsstring" where
  "str s = map cu s"

text \<open>
  \<open>String.prototype.trim\<close> removes WhiteSpace and LineTerminator code points from both
  ends (ECMAScript: TAB, LF, VT, FF, CR, SP, NBSP, the Unicode space separators, LS, PS
  and ZWNBSP).
\<close>

definition is_js_whitespace :: "16 word \<Rightarrow> bool" where
  "is_js_whitespace c \<longleftrightarrow>
     c = 0x9 \<or> c = 0xA \<or> c = 0xB \<or> c = 0xC \<or> c = 0xD \<or> c = 0x20 \<or> c = 0xA0 \<or>
     c = 0x1680 \<or> (0x2000 \<le> c \<and> c \<le> 0x200A) \<or> c = 0x2028 \<or> c = 0x2029 \<or>
     c = 0x202F \<or> c = 0x205F \<or> c = 0x3000 \<or> c = 0xFEFF"

definition trim :: "jsstring \<Rightarrow> jsstring" where
  "trim s = rev (dropWhile is_js_whitespace (rev (dropWhile is_js_whitespace s)))"

text \<open>\<open>s.substring(0, n)\<close> for \<open>0 \<le> n\<close>: the first \<open>n\<close> code units, all of \<open>s\<close> when it is shorter.\<close>

definition substring0 :: "jsstring \<Rightarrow> nat \<Rightarrow> jsstring" where
  "substring0 s n = take n s"

text \<open>The decimal rendering of an integer, as a template literal prints a number.\<close>

definition digit :: "nat \<Rightarrow> 16 word" where
  "digit d = of_nat (48 + d)"

fun decimal :: "nat \<Rightarrow> jsstring" where
  "decimal n = (if n < 10 then [digit n] else decimal (n div 10) @ [digit (n mod 10)])"

declare decimal.simps [simp del]

definition number_to_string :: "int \<Rightarrow> jsstring" where
  "number_to_string i = (if i < 0 then cu CHR ''-'' # decimal (nat (- i)) else decimal (nat i))"

text \<open>
  \<open>[...new Set(xs)]\<close>: a Set keeps its values in insertion order and ignores a value it
  already holds, so spreading it gives the first occurrences of \<open>xs\<close> in order.
\<close>

fun set_add_all :: "'a list \<Rightarrow> 'a list \<Rightarrow> 'a list" where
  "set_add_all seen [] = seen"
| "set_add_all seen (x # xs) = set_add_all (if x \<in> set seen then seen else seen @ [x]) xs"

definition spread_new_Set :: "'a list \<Rightarrow> 'a list" where
  "spread_new_Set xs = set_add_all [] xs"

text \<open>
  A thrown value: its message and its \<open>context\<close> property. \<open>None\<close> is an error with no
  \<open>context\<close> (a plain \<open>Error\<close>), \<open>Some ix\<close> one with a context object whose \<open>itemIndex\<close> is
  \<open>ix\<close> (\<open>None\<close> when unset).
\<close>

datatype js_error = JsError (error_message: jsstring) (error_context: "nat option option")

text \<open>
  \<open>new NodeOperationError(this.getNode(), 'URL is required', { itemIndex })\<close>, line 93. The
  constructor replaces a message that contains one of its common error codes
  (\<open>ECONNREFUSED\<close>, \<open>ETIMEDOUT\<close>, \<open>ENOTFOUND\<close>, ...); the source's own message contains none,
  so it is stored as given, with the item's index in the context.
\<close>

definition URL_is_required :: "nat \<Rightarrow> js_error" where
  "URL_is_required itemIndex = JsError (str ''URL is required'') (Some (Some itemIndex))"

definition TypeError_undefined :: js_error where
  "TypeError_undefined = JsError (str ''Cannot read properties of undefined'') None"

section \<open>Data of the node\<close>

text \<open>An input item (\<open>INodeExecutionData\<close>): its payload, and the annotations the catch block adds.\<close>

record 'j item =
  json :: 'j
  error :: "js_error option"
  pairedItem :: "nat option"

text \<open>The \<open>data\<close> object of a record pushed to \<open>returnData\<close>, one shape per operation.\<close>

datatype payload =
    LinksData (data_url: jsstring) (data_links: "jsstring list")
  | TextData (data_url: jsstring) (data_text: jsstring)
  | HtmlData (data_url: jsstring) (data_html: jsstring)

record out_record =
  status :: jsstring
  message :: jsstring
  data :: payload

text \<open>The options the source passes to \<open>new CheerioCrawler\<close> (the request handler apart).\<close>

record crawler_options =
  maxRequestsPerCrawl :: int
  requestHandlerTimeoutSecs :: int
  useSessionPool :: bool
  maxConcurrency :: int

text \<open>
  What a request handler reads from its argument: \<open>request.url\<close>, the \<open>href\<close> attribute of
  every element matching \<open>a[href]\<close> in document order, \<open>$('body').text()\<close> and \<open>body\<close>.
\<close>

record fetched_page =
  request_url :: jsstring
  anchors :: "jsstring list"
  body_text :: jsstring
  body :: jsstring

text \<open>
  One call of \<open>crawler.run\<close>, seen from the node: the pages for which the crawler invoked
  the request handler, in order, and whether the promise was rejected afterwards.
\<close>

record run_report =
  handled :: "fetched_page list"
  rejection :: "js_error option"

datatype event =
    Run nat crawler_options jsstring
  | Teardown nat

text \<open>
  The host and the libraries are parameters. \<open>getUrl\<close>, \<open>getOperation\<close> and \<open>getMaxDepth\<close>
  are \<open>this.getNodeParameter\<close> for the three parameters at an item index (with the
  source's defaults already applied, and maxDepth an integer); \<open>getInputData\<close> is \<open>this.getInputData(k)\<close> for an
  input index \<open>k > 0\<close> (input 0 is the array \<open>items\<close> itself); \<open>dateNow\<close> is \<open>Date.now()\<close>
  while an item is processed; \<open>crawler_new\<close> tells whether the constructor throws;
  \<open>crawler_run\<close> is the crawl; \<open>teardown_error\<close> tells whether \<open>teardown\<close> throws; \<open>URL_new\<close>
  is \<open>new URL(href, base).href\<close>, \<open>None\<close> when the constructor throws; \<open>describeMessage\<close> is the
  message the \<open>NodeOperationError\<close> constructor stores when it is given an error with that
  message (it replaces a message that contains a common error code).
\<close>

record 'j env =
  continueOnFail :: bool
  getUrl :: "nat \<Rightarrow> js_error + jsstring"
  getOperation :: "nat \<Rightarrow> js_error + jsstring"
  getMaxDepth :: "nat \<Rightarrow> js_error + int"
  getInputData :: "nat \<Rightarrow> js_error + 'j item list"
  dateNow :: "nat \<Rightarrow> int"
  crawler_new :: "nat \<Rightarrow> crawler_options \<Rightarrow> js_error option"
  crawler_run :: "nat \<Rightarrow> crawler_options \<Rightarrow> jsstring \<Rightarrow> run_report"
  teardown_error :: "nat \<Rightarrow> js_error option"
  URL_new :: "jsstring \<Rightarrow> jsstring \<Rightarrow> jsstring option"
  describeMessage :: "jsstring \<Rightarrow> jsstring"

text \<open>The mutable state of \<open>execute\<close>: the two arrays, and the calls made on crawlers so far.\<close>

record 'j exec_state =
  items :: "'j item list"
  returnData :: "out_record list"
  events :: "event list"

datatype completion = Normal | Throw js_error

section \<open>The source, function by function\<close>

definition appendTimestampToUrl :: "int \<Rightarrow> jsstring \<Rightarrow> jsstring" where
  "appendTimestampToUrl now url =
     (let separator = (if cu CHR ''?'' \<in> set url then str ''&'' else str ''?'')
      in url @ separator @ str ''_='' @ number_to_string now)"

definition linksOptions :: "int \<Rightarrow> crawler_options" where
  "linksOptions maxDepth =
     \<lparr> maxRequestsPerCrawl = min 100 (maxDepth * 50),
       requestHandlerTimeoutSecs = 30,
       useSessionPool = False,
       maxConcurrency = 5 \<rparr>"

definition textOptions :: crawler_options where
  "textOptions =
     \<lparr> maxRequestsPerCrawl = 1,
       requestHandlerTimeoutSecs = 30,
       useSessionPool = False,
       maxConcurrency = 1 \<rparr>"

definition htmlOptions :: crawler_options where
  "htmlOptions =
     \<lparr> maxRequestsPerCrawl = 1,
       requestHandlerTimeoutSecs = 30,
       useSessionPool = False,
       maxConcurrency = 1 \<rparr>"

text \<open>The body of the \<open>each\<close> loop of the links handler, over the anchors of one page.\<close>

fun collect_links :: "'j env \<Rightarrow> jsstring \<Rightarrow> jsstring list \<Rightarrow> jsstring list \<Rightarrow> jsstring list" where
  "collect_links env base [] ls = ls"
| "collect_links env base (href # rest) ls =
     (if href \<noteq> [] then
        (case URL_new env href base of
           Some u \<Rightarrow> collect_links env base rest (ls @ [u])
         | None \<Rightarrow> collect_links env base rest ls)
      else collect_links env base rest ls)"

text \<open>An entry of \<open>crawledData\<close>.\<close>

record crawled =
  crawled_url :: jsstring
  crawled_links :: "jsstring list"

definition linksHandler :: "'j env \<Rightarrow> jsstring \<Rightarrow> crawled list \<Rightarrow> fetched_page \<Rightarrow> crawled list" where
  "linksHandler env originalUrl crawledData page =
     (let ls = collect_links env (request_url page) (anchors page) []
      in crawledData @ [\<lparr> crawled_url = originalUrl, crawled_links = ls \<rparr>])"

definition truncateText :: "jsstring \<Rightarrow> jsstring" where
  "truncateText t = (if length t > 50000 then substring0 t 50000 @ str ''...'' else t)"

definition truncateHtml :: "jsstring \<Rightarrow> jsstring" where
  "truncateHtml b = (if length b > 100000 then substring0 b 100000 @ str ''...'' else b)"

definition textHandler :: "jsstring \<Rightarrow> out_record list \<Rightarrow> fetched_page \<Rightarrow> out_record list" where
  "textHandler originalUrl rd page =
     (let t = trim (body_text page);
          truncatedText = truncateText t
      in rd @ [\<lparr> status = str ''success'', message = str ''Text extraction finished'',
                 data = TextData originalUrl truncatedText \<rparr>])"

definition htmlHandler :: "jsstring \<Rightarrow> out_record list \<Rightarrow> fetched_page \<Rightarrow> out_record list" where
  "htmlHandler originalUrl rd page =
     (let truncatedHtml = truncateHtml (body page)
      in rd @ [\<lparr> status = str ''success'', message = str ''HTML extraction finished'',
                 data = HtmlData originalUrl truncatedHtml \<rparr>])"

definition links_record :: "jsstring \<Rightarrow> crawled list \<Rightarrow> out_record" where
  "links_record originalUrl crawledData =
     (let uniqueLinks = spread_new_Set (concat (map crawled_links crawledData))
      in \<lparr> status = str ''success'', message = str ''Crawling finished'',
           data = LinksData originalUrl uniqueLinks \<rparr>)"

text \<open>
  The three branches of the \<open>try\<close> block. Each returns the state, how the block completed,
  and whether the variable \<open>crawler\<close> still holds a crawler when the block is left.
\<close>

definition extractLinks_branch ::
  "'j env \<Rightarrow> nat \<Rightarrow> jsstring \<Rightarrow> 'j exec_state \<Rightarrow> 'j exec_state \<times> completion \<times> bool" where
  "extractLinks_branch env itemIndex url st =
     (let originalUrl = url in
      case getMaxDepth env itemIndex of
        Inl e \<Rightarrow> (st, Throw e, False)
      | Inr maxDepth \<Rightarrow>
          (let opts = linksOptions maxDepth in
           case crawler_new env itemIndex opts of
             Some e \<Rightarrow> (st, Throw e, False)
           | None \<Rightarrow>
               (let start = appendTimestampToUrl (dateNow env itemIndex) url;
                    report = crawler_run env itemIndex opts start;
                    crawledData = foldl (linksHandler env originalUrl) [] (handled report);
                    st1 = st\<lparr> events := events st @ [Run itemIndex opts start] \<rparr>
                in case rejection report of
                     Some e \<Rightarrow> (st1, Throw e, True)
                   | None \<Rightarrow>
                       (st1\<lparr> returnData := returnData st1 @ [links_record originalUrl crawledData] \<rparr>,
                        Normal, False))))"

definition extractText_branch ::
  "'j env \<Rightarrow> nat \<Rightarrow> jsstring \<Rightarrow> 'j exec_state \<Rightarrow> 'j exec_state \<times> completion \<times> bool" where
  "extractText_branch env itemIndex url st =
     (let originalUrl = url; opts = textOptions in
      case crawler_new env itemIndex opts of
        Some e \<Rightarrow> (st, Throw e, False)
      | None \<Rightarrow>
          (let start = appendTimestampToUrl (dateNow env itemIndex) url;
               report = crawler_run env itemIndex opts start;
               st1 = st\<lparr> events := events st @ [Run itemIndex opts start],
                         returnData := foldl (textHandler originalUrl) (returnData st) (handled report) \<rparr>
           in case rejection report of
                Some e \<Rightarrow> (st1, Throw e, True)
              | None \<Rightarrow> (st1, Normal, False)))"

definition extractHtml_branch ::
  "'j env \<Rightarrow> nat \<Rightarrow> jsstring \<Rightarrow> 'j exec_state \<Rightarrow> 'j exec_state \<times> completion \<times> bool" where
  "extractHtml_branch env itemIndex url st =
     (let originalUrl = url; opts = htmlOptions in
      case crawler_new env itemIndex opts of
        Some e \<Rightarrow> (st, Throw e, False)
      | None \<Rightarrow>
          (let start = appendTimestampToUrl (dateNow env itemIndex) url;
               report = crawler_run env itemIndex opts start;
               st1 = st\<lparr> events := events st @ [Run itemIndex opts start],
                         returnData := foldl (htmlHandler originalUrl) (returnData st) (handled report) \<rparr>
           in case rejection report of
                Some e \<Rightarrow> (st1, Throw e, True)
              | None \<Rightarrow> (st1, Normal, False)))"

definition try_block ::
  "'j env \<Rightarrow> nat \<Rightarrow> 'j exec_state \<Rightarrow> 'j exec_state \<times> completion \<times> bool" where
  "try_block env itemIndex st =
     (case getUrl env itemIndex of
        Inl e \<Rightarrow> (st, Throw e, False)
      | Inr url \<Rightarrow>
          (case getOperation env itemIndex of
             Inl e \<Rightarrow> (st, Throw e, False)
           | Inr operation \<Rightarrow>
               if url = [] then (st, Throw (URL_is_required itemIndex), False)
               else if operation = str ''extractLinks'' then extractLinks_branch env itemIndex url st
               else if operation = str ''extractText'' then extractText_branch env itemIndex url st
               else if operation = str ''extractHtml'' then extractHtml_branch env itemIndex url st
               else (st, Normal, False)))"

text \<open>\<open>new NodeOperationError(this.getNode(), error, { itemIndex })\<close>, line 203: the message
  is the library's, from the message of the error it wraps.\<close>

definition NodeOperationError :: "'j env \<Rightarrow> js_error \<Rightarrow> nat \<Rightarrow> js_error" where
  "NodeOperationError env err itemIndex =
     JsError (describeMessage env (error_message err)) (Some (Some itemIndex))"

text \<open>\<open>this.getInputData(itemIndex)[0].json\<close>, as the catch block evaluates it.\<close>

definition input_json :: "'j env \<Rightarrow> 'j exec_state \<Rightarrow> nat \<Rightarrow> js_error + 'j" where
  "input_json env st itemIndex =
     (case (if itemIndex = 0 then Inr (items st) else getInputData env itemIndex) of
        Inl e \<Rightarrow> Inl e
      | Inr [] \<Rightarrow> Inl TypeError_undefined
      | Inr (first # _) \<Rightarrow> Inr (json first))"

definition catch_block ::
  "'j env \<Rightarrow> nat \<Rightarrow> js_error \<Rightarrow> 'j exec_state \<Rightarrow> 'j exec_state \<times> completion" where
  "catch_block env itemIndex err st =
     (if continueOnFail env then
        (case input_json env st itemIndex of
           Inl e \<Rightarrow> (st, Throw e)
         | Inr j \<Rightarrow>
             (st\<lparr> items := items st @ [\<lparr> json = j, error = Some err, pairedItem = Some itemIndex \<rparr>] \<rparr>,
              Normal))
      else
        (case error_context err of
           Some _ \<Rightarrow> (st, Throw (JsError (error_message err) (Some (Some itemIndex))))
         | None \<Rightarrow> (st, Throw (NodeOperationError env err itemIndex))))"

text \<open>The \<open>finally\<close> block: a teardown error is caught and dropped.\<close>

definition finally_block :: "'j env \<Rightarrow> nat \<Rightarrow> bool \<Rightarrow> 'j exec_state \<Rightarrow> 'j exec_state" where
  "finally_block env itemIndex crawler st =
     (if crawler then
        (case teardown_error env itemIndex of
           Some _ \<Rightarrow> st\<lparr> events := events st @ [Teardown itemIndex] \<rparr>
         | None \<Rightarrow> st\<lparr> events := events st @ [Teardown itemIndex] \<rparr>)
      else st)"

text \<open>One iteration of the item loop: \<open>try\<close>, then \<open>catch\<close> when it threw, then \<open>finally\<close>.\<close>

definition process_item :: "'j env \<Rightarrow> nat \<Rightarrow> 'j exec_state \<Rightarrow> 'j exec_state \<times> completion" where
  "process_item env itemIndex st =
     (case try_block env itemIndex st of
        (st1, Normal, crawler) \<Rightarrow> (finally_block env itemIndex crawler st1, Normal)
      | (st1, Throw e, crawler) \<Rightarrow>
          (case catch_block env itemIndex e st1 of
             (st2, c) \<Rightarrow> (finally_block env itemIndex crawler st2, c)))"

text \<open>
  The item loop. \<open>items.length\<close> is read again at every iteration and the catch block
  pushes onto \<open>items\<close>, so the loop need not end: it runs on fuel, and \<open>None\<close> is a run the
  fuel did not suffice for.
\<close>

fun item_loop :: "nat \<Rightarrow> 'j env \<Rightarrow> nat \<Rightarrow> 'j exec_state \<Rightarrow> ('j exec_state \<times> completion) option" where
  "item_loop 0 env itemIndex st = None"
| "item_loop (Suc fuel) env itemIndex st =
     (if itemIndex < length (items st) then
        (case process_item env itemIndex st of
           (st1, Normal) \<Rightarrow> item_loop fuel env (itemIndex + 1) st1
         | (st1, Throw e) \<Rightarrow> Some (st1, Throw e))
      else Some (st, Normal))"

definition execute :: "nat \<Rightarrow> 'j env \<Rightarrow> 'j item list \<Rightarrow> ('j exec_state \<times> completion) option" where
  "execute fuel env input =
     item_loop fuel env 0 \<lparr> items = input, returnData = [], events = [] \<rparr>"

section \<open>Auxiliary definitions for the statements\<close>

text \<open>The record each handler pushes for one page, and what the catch and finally blocks
  do after a \<open>crawler.run\<close> that threw (the crawler variable is still set then).\<close>

definition text_record :: "jsstring \<Rightarrow> fetched_page \<Rightarrow> out_record" where
  "text_record url page =
     \<lparr> status = str ''success'', message = str ''Text extraction finished'',
       data = TextData url (truncateText (trim (body_text page))) \<rparr>"

definition html_record :: "jsstring \<Rightarrow> fetched_page \<Rightarrow> out_record" where
  "html_record url page =
     \<lparr> status = str ''success'', message = str ''HTML extraction finished'',
       data = HtmlData url (truncateHtml (body page)) \<rparr>"

definition after_throw :: "'j env \<Rightarrow> nat \<Rightarrow> js_error \<Rightarrow> 'j exec_state \<Rightarrow> 'j exec_state \<times> completion" where
  "after_throw env i e st1 =
     (case catch_block env i e st1 of (st2, c) \<Rightarrow> (st2\<lparr> events := events st2 @ [Teardown i] \<rparr>, c))"

text \<open>What the catch block throws for a caught error when continue-on-failure is off.\<close>

definition raised :: "'j env \<Rightarrow> nat \<Rightarrow> js_error \<Rightarrow> js_error" where
  "raised env i e =
     (case error_context e of
        Some _ \<Rightarrow> JsError (error_message e) (Some (Some i))
      | None \<Rightarrow> NodeOperationError env e i)"

text \<open>The links one page contributes: the anchors that are non-empty and that \<open>URL_new\<close>
  resolves, in document order.\<close>

definition resolved_links :: "'j env \<Rightarrow> fetched_page \<Rightarrow> jsstring list" where
  "resolved_links env p =
     List.map_filter (\<lambda>href. if href \<noteq> [] then URL_new env href (request_url p) else None) (anchors p)"

definition is_operation :: "jsstring \<Rightarrow> bool" where
  "is_operation operation \<longleftrightarrow>
     operation = str ''extractLinks'' \<or> operation = str ''extractText'' \<or> operation = str ''extractHtml''"

text \<open>The options of the branch that an operation selects.\<close>

definition options_for :: "jsstring \<Rightarrow> int \<Rightarrow> crawler_options" where
  "options_for operation maxDepth =
     (if operation = str ''extractLinks'' then linksOptions maxDepth
      else if operation = str ''extractText'' then textOptions else htmlOptions)"

text \<open>
  The specification's FetchLimits, written from its words: ExtractLinks has
  maxTotalRequests = min(100, maxDepth * 50) and maxConcurrency = 5, ExtractText and
  ExtractHtml have 1 and 1, and perRequestTimeout is 30 seconds for all. \<open>limits_of\<close> reads
  the three limits off the options the source builds.
\<close>

record fetch_limits =
  maxTotalRequests :: int
  maxConcurrencyLimit :: int
  perRequestTimeout :: int

definition FetchLimits_spec :: "jsstring \<Rightarrow> int \<Rightarrow> fetch_limits" where
  "FetchLimits_spec operation maxDepth =
     (if operation = str ''extractLinks''
      then \<lparr> maxTotalRequests = min 100 (maxDepth * 50), maxConcurrencyLimit = 5, perRequestTimeout = 30 \<rparr>
      else \<lparr> maxTotalRequests = 1, maxConcurrencyLimit = 1, perRequestTimeout = 30 \<rparr>)"

definition limits_of :: "crawler_options \<Rightarrow> fetch_limits" where
  "limits_of opts =
     \<lparr> maxTotalRequests = maxRequestsPerCrawl opts, maxConcurrencyLimit = maxConcurrency opts,
       perRequestTimeout = requestHandlerTimeoutSecs opts \<rparr>"

section \<open>The runtime's URL constructor, on a fragment\<close>

text \<open>
  \<open>new URL(url, base).href\<close> is the platform's, not this repository's. \<open>URL_href\<close> follows
  the basic URL parser and the serializer of the WHATWG URL Standard, state by state,
  on a fragment: input over printable ASCII without the code points that a
  percent-encode set of the path, query or fragment rewrites and without backslash;
  schemes \<open>http\<close> and \<open>https\<close>; no credentials and no IP literals; a host of ASCII letters,
  digits, \<open>.\<close> and \<open>-\<close> with no \<open>xn--\<close> label and no numeric last label. On that fragment
  domain-to-ASCII is ASCII lowercasing and no code point is percent-encoded. The result
  is \<open>Parsed\<close> with the href, \<open>Failure\<close> where the parser returns failure (the constructor
  throws a TypeError), and \<open>Unmodelled\<close> outside the fragment.
\<close>

datatype 'a parsed = Parsed 'a | Failure | Unmodelled

record url_record =
  url_scheme :: jsstring
  url_host :: jsstring
  url_port :: "nat option"
  url_path :: "jsstring list"
  url_query :: "jsstring option"
  url_fragment :: "jsstring option"

definition is_ascii_digit :: "16 word \<Rightarrow> bool" where
  "is_ascii_digit c \<longleftrightarrow> 0x30 \<le> c \<and> c \<le> 0x39"

definition is_ascii_upper :: "16 word \<Rightarrow> bool" where
  "is_ascii_upper c \<longleftrightarrow> 0x41 \<le> c \<and> c \<le> 0x5A"

definition is_ascii_alpha :: "16 word \<Rightarrow> bool" where
  "is_ascii_alpha c \<longleftrightarrow> is_ascii_upper c \<or> (0x61 \<le> c \<and> c \<le> 0x7A)"

definition ascii_lower :: "16 word \<Rightarrow> 16 word" where
  "ascii_lower c = (if is_ascii_upper c then c + 0x20 else c)"

definition in_modelled_alphabet :: "16 word \<Rightarrow> bool" where
  "in_modelled_alphabet c \<longleftrightarrow>
     0x21 \<le> c \<and> c \<le> 0x7E \<and> c \<noteq> 0x22 \<and> c \<noteq> 0x27 \<and> c \<noteq> 0x3C \<and> c \<noteq> 0x3E \<and>
     c \<noteq> 0x5C \<and> c \<noteq> 0x5E \<and> c \<noteq> 0x60 \<and> c \<noteq> 0x7B \<and> c \<noteq> 0x7C \<and> c \<noteq> 0x7D"

fun scheme_state :: "jsstring \<Rightarrow> jsstring \<Rightarrow> (jsstring \<times> jsstring) option" where
  "scheme_state buffer [] = None"
| "scheme_state buffer (c # rest) =
     (if is_ascii_alpha c \<or> is_ascii_digit c \<or> c = cu CHR ''+'' \<or> c = cu CHR ''-'' \<or> c = cu CHR ''.''
      then scheme_state (buffer @ [ascii_lower c]) rest
      else if c = cu CHR '':'' then Some (buffer, rest)
      else None)"

definition scheme_start_state :: "jsstring \<Rightarrow> (jsstring \<times> jsstring) option" where
  "scheme_start_state input =
     (case input of
        [] \<Rightarrow> None
      | c # rest \<Rightarrow> if is_ascii_alpha c then scheme_state [ascii_lower c] rest else None)"

definition default_port :: "jsstring \<Rightarrow> nat option" where
  "default_port scheme =
     (if scheme = str ''http'' then Some 80 else if scheme = str ''https'' then Some 443 else None)"

definition is_single_dot :: "jsstring \<Rightarrow> bool" where
  "is_single_dot buffer \<longleftrightarrow> buffer = str ''.'' \<or> map ascii_lower buffer = str ''%2e''"

definition is_double_dot :: "jsstring \<Rightarrow> bool" where
  "is_double_dot buffer \<longleftrightarrow>
     buffer = str ''..'' \<or> map ascii_lower buffer = str ''.%2e'' \<or>
     map ascii_lower buffer = str ''%2e.'' \<or> map ascii_lower buffer = str ''%2e%2e''"

definition shorten_path :: "jsstring list \<Rightarrow> jsstring list" where
  "shorten_path path = butlast path"

definition path_segment_end :: "jsstring list \<Rightarrow> jsstring \<Rightarrow> bool \<Rightarrow> jsstring list" where
  "path_segment_end path buffer at_slash =
     (if is_double_dot buffer then
        (if at_slash then shorten_path path else shorten_path path @ [[]])
      else if is_single_dot buffer then
        (if at_slash then path else path @ [[]])
      else path @ [buffer])"

fun path_state :: "jsstring list \<Rightarrow> jsstring \<Rightarrow> jsstring \<Rightarrow> jsstring list \<times> jsstring" where
  "path_state path buffer [] = (path_segment_end path buffer False, [])"
| "path_state path buffer (c # rest) =
     (if c = cu CHR ''/'' then path_state (path_segment_end path buffer True) [] rest
      else if c = cu CHR ''?'' \<or> c = cu CHR ''#'' then (path_segment_end path buffer False, c # rest)
      else path_state path (buffer @ [c]) rest)"

definition fragment_state :: "url_record \<Rightarrow> jsstring \<Rightarrow> url_record" where
  "fragment_state u input = u\<lparr> url_fragment := Some input \<rparr>"

definition query_state :: "url_record \<Rightarrow> jsstring \<Rightarrow> url_record" where
  "query_state u input =
     (let q = takeWhile (\<lambda>c. c \<noteq> cu CHR ''#'') input;
          r = dropWhile (\<lambda>c. c \<noteq> cu CHR ''#'') input;
          u1 = u\<lparr> url_query := Some q \<rparr>
      in case r of [] \<Rightarrow> u1 | _ # f \<Rightarrow> fragment_state u1 f)"

definition path_and_after :: "url_record \<Rightarrow> jsstring list \<Rightarrow> jsstring \<Rightarrow> url_record" where
  "path_and_after u path input =
     (case path_state path [] input of
        (p, r) \<Rightarrow>
          (let u1 = u\<lparr> url_path := p \<rparr>
           in case r of
                [] \<Rightarrow> u1
              | c # r' \<Rightarrow> if c = cu CHR ''?'' then query_state u1 r' else fragment_state u1 r'))"

definition path_start_state :: "url_record \<Rightarrow> jsstring \<Rightarrow> url_record" where
  "path_start_state u input =
     (case input of
        [] \<Rightarrow> path_and_after u [] []
      | c # rest \<Rightarrow> if c = cu CHR ''/'' then path_and_after u [] rest else path_and_after u [] input)"

fun split_on :: "'a \<Rightarrow> 'a list \<Rightarrow> 'a list \<Rightarrow> 'a list list" where
  "split_on sep cur [] = [cur]"
| "split_on sep cur (c # rest) =
     (if c = sep then cur # split_on sep [] rest else split_on sep (cur @ [c]) rest)"

definition ends_in_a_number_candidate :: "jsstring \<Rightarrow> bool" where
  "ends_in_a_number_candidate domain =
     (let parts = split_on (cu CHR ''.'') [] domain;
          parts1 = (if last parts = [] \<and> length parts > 1 then butlast parts else parts);
          lst = last parts1
      in lst \<noteq> [] \<and> is_ascii_digit (hd lst))"

definition host_parser :: "jsstring \<Rightarrow> jsstring parsed" where
  "host_parser input =
     (if \<not> list_all (\<lambda>c. is_ascii_alpha c \<or> is_ascii_digit c \<or> c = cu CHR ''.'' \<or> c = cu CHR ''-'') input
      then Unmodelled
      else
        (let asciiDomain = map ascii_lower input in
         if list_ex (\<lambda>label. take 4 label = str ''xn--'') (split_on (cu CHR ''.'') [] asciiDomain)
         then Unmodelled
         else if asciiDomain = [] then Failure
         else if ends_in_a_number_candidate asciiDomain then Unmodelled
         else Parsed asciiDomain))"

fun digits_value :: "nat \<Rightarrow> jsstring \<Rightarrow> nat" where
  "digits_value acc [] = acc"
| "digits_value acc (c # rest) = digits_value (acc * 10 + (unat c - 48)) rest"

definition port_state :: "jsstring \<Rightarrow> jsstring \<Rightarrow> nat option parsed" where
  "port_state scheme buffer =
     (if \<not> list_all is_ascii_digit buffer then Failure
      else if buffer = [] then Parsed None
      else
        (let port = digits_value 0 buffer in
         if port > 65535 then Failure
         else if default_port scheme = Some port then Parsed None
         else Parsed (Some port)))"

definition authority_state :: "jsstring \<Rightarrow> jsstring \<Rightarrow> url_record parsed" where
  "authority_state scheme input =
     (let is_end = (\<lambda>c. c = cu CHR ''/'' \<or> c = cu CHR ''?'' \<or> c = cu CHR ''#'');
          authority = takeWhile (\<lambda>c. \<not> is_end c) input;
          rest = dropWhile (\<lambda>c. \<not> is_end c) input
      in if cu CHR ''@'' \<in> set authority \<or> cu CHR ''['' \<in> set authority \<or> cu CHR '']'' \<in> set authority
         then Unmodelled
         else
           (let buffer = takeWhile (\<lambda>c. c \<noteq> cu CHR '':'') authority;
                after = dropWhile (\<lambda>c. c \<noteq> cu CHR '':'') authority
            in if buffer = [] then Failure
               else
                 (case host_parser buffer of
                    Failure \<Rightarrow> Failure
                  | Unmodelled \<Rightarrow> Unmodelled
                  | Parsed h \<Rightarrow>
                      (case (case after of [] \<Rightarrow> Parsed None | _ # digits \<Rightarrow> port_state scheme digits) of
                         Failure \<Rightarrow> Failure
                       | Unmodelled \<Rightarrow> Unmodelled
                       | Parsed p \<Rightarrow>
                           Parsed (path_start_state
                             \<lparr> url_scheme = scheme, url_host = h, url_port = p, url_path = [],
                               url_query = None, url_fragment = None \<rparr> rest)))))"

definition special_authority_ignore_slashes_state :: "jsstring \<Rightarrow> jsstring \<Rightarrow> url_record parsed" where
  "special_authority_ignore_slashes_state scheme input =
     authority_state scheme (dropWhile (\<lambda>c. c = cu CHR ''/'') input)"

definition special_authority_slashes_state :: "jsstring \<Rightarrow> jsstring \<Rightarrow> url_record parsed" where
  "special_authority_slashes_state scheme input =
     (if take 2 input = str ''//'' then special_authority_ignore_slashes_state scheme (drop 2 input)
      else special_authority_ignore_slashes_state scheme input)"

definition relative_slash_state :: "url_record \<Rightarrow> jsstring \<Rightarrow> url_record parsed" where
  "relative_slash_state base input =
     (case input of
        [] \<Rightarrow> Parsed (path_and_after (base\<lparr> url_path := [], url_query := None, url_fragment := None \<rparr>) [] [])
      | c # rest \<Rightarrow>
          if c = cu CHR ''/'' then special_authority_ignore_slashes_state (url_scheme base) rest
          else Parsed (path_and_after (base\<lparr> url_path := [], url_query := None, url_fragment := None \<rparr>) [] input))"

definition relative_state :: "url_record \<Rightarrow> jsstring \<Rightarrow> url_record parsed" where
  "relative_state base input =
     (case input of
        [] \<Rightarrow> Parsed (base\<lparr> url_fragment := None \<rparr>)
      | c # rest \<Rightarrow>
          if c = cu CHR ''/'' then relative_slash_state base rest
          else if c = cu CHR ''?'' then Parsed (query_state (base\<lparr> url_fragment := None \<rparr>) rest)
          else if c = cu CHR ''#'' then Parsed (fragment_state base rest)
          else Parsed (path_and_after (base\<lparr> url_query := None, url_fragment := None \<rparr>)
                         (shorten_path (url_path base)) input))"

definition special_relative_or_authority_state :: "url_record \<Rightarrow> jsstring \<Rightarrow> url_record parsed" where
  "special_relative_or_authority_state base input =
     (if take 2 input = str ''//'' then special_authority_ignore_slashes_state (url_scheme base) (drop 2 input)
      else relative_state base input)"

definition basic_url_parser :: "jsstring \<Rightarrow> url_record option \<Rightarrow> url_record parsed" where
  "basic_url_parser input base =
     (if \<not> list_all in_modelled_alphabet input then Unmodelled
      else
        (case scheme_start_state input of
           Some (scheme, rest) \<Rightarrow>
             if default_port scheme = None then Unmodelled
             else
               (case base of
                  None \<Rightarrow> special_authority_slashes_state scheme rest
                | Some b \<Rightarrow>
                    if url_scheme b = scheme then special_relative_or_authority_state b rest
                    else special_authority_slashes_state scheme rest)
         | None \<Rightarrow>
             (case base of
                None \<Rightarrow> Failure
              | Some b \<Rightarrow> relative_state b input)))"

definition url_serializer :: "url_record \<Rightarrow> jsstring" where
  "url_serializer u =
     url_scheme u @ str ''://'' @ url_host u
       @ (case url_port u of None \<Rightarrow> [] | Some p \<Rightarrow> str '':'' @ decimal p)
       @ concat (map (\<lambda>segment. str ''/'' @ segment) (url_path u))
       @ (case url_query u of None \<Rightarrow> [] | Some q \<Rightarrow> str ''?'' @ q)
       @ (case url_fragment u of None \<Rightarrow> [] | Some f \<Rightarrow> str ''#'' @ f)"

definition URL_href :: "jsstring \<Rightarrow> jsstring \<Rightarrow> jsstring parsed" where
  "URL_href url base =
     (case basic_url_parser base None of
        Failure \<Rightarrow> Failure
      | Unmodelled \<Rightarrow> Unmodelled
      | Parsed parsedBase \<Rightarrow>
          (case basic_url_parser url (Some parsedBase) of
             Failure \<Rightarrow> Failure
           | Unmodelled \<Rightarrow> Unmodelled
           | Parsed u \<Rightarrow> Parsed (url_serializer u)))"




section \<open>Concrete hosts and pages\<close>

text \<open>
  The inputs at which the statements are evaluated: a page with padded body text; a page
  on \<open>https://x.test/\<close> with a repeated and an empty href; a host that resolves at once and
  handles that page, with one input item; then variations of it: a crawl that handles no
  page and resolves, a crawl that is rejected, an empty url parameter with
  continue-on-failure on, and pages with hrefs for the URL constructor.
\<close>

definition page_hi :: fetched_page where
  "page_hi = \<lparr> request_url = str ''https://x.test/?_=1'', anchors = [],
               body_text = str ''  hi  '', body = str ''<p> hi </p>'' \<rparr>"

text \<open>The URL constructor of these hosts is \<open>URL_href\<close>; the statements evaluate it only on
  inputs of the fragment.\<close>

text \<open>
  The constructor's rewrite at the messages these hosts wrap: the only one that holds a
  common error code is \<open>connect ECONNREFUSED\<close>.
\<close>

definition demo_describe :: "jsstring \<Rightarrow> jsstring" where
  "demo_describe m =
     (if m = str ''connect ECONNREFUSED''
      then str ''The service refused the connection - perhaps it is offline'' else m)"

definition demo_URL :: "jsstring \<Rightarrow> jsstring \<Rightarrow> jsstring option" where
  "demo_URL href base =
     (case URL_href href base of Parsed u \<Rightarrow> Some u | Failure \<Rightarrow> None | Unmodelled \<Rightarrow> None)"

definition demo_page :: fetched_page where
  "demo_page = \<lparr> request_url = str ''https://x.test/?_=1700000000000'',
                 anchors = [str ''/a'', str ''https://x.test/b'', str ''/a'', []],
                 body_text = str ''  hi  '', body = str ''<p> hi </p>'' \<rparr>"

definition demo_env :: "string env" where
  "demo_env =
     \<lparr> continueOnFail = False,
       getUrl = (\<lambda>i. Inr (str ''https://x.test/'')),
       getOperation = (\<lambda>i. Inr (str ''extractLinks'')),
       getMaxDepth = (\<lambda>i. Inr 3),
       getInputData = (\<lambda>k. Inr []),
       dateNow = (\<lambda>i. 1700000000000),
       crawler_new = (\<lambda>i opts. None),
       crawler_run = (\<lambda>i opts start. \<lparr> handled = [demo_page], rejection = None \<rparr>),
       teardown_error = (\<lambda>i. None),
       URL_new = demo_URL,
       describeMessage = demo_describe \<rparr>"

definition demo_state :: "string exec_state" where
  "demo_state = \<lparr> items = [\<lparr> json = ''{}'', error = None, pairedItem = None \<rparr>],
                  returnData = [], events = [] \<rparr>"

definition no_pages_env :: "string env" where
  "no_pages_env = demo_env\<lparr> crawler_run := \<lambda>i opts start. \<lparr> handled = [], rejection = None \<rparr> \<rparr>"

definition refused :: js_error where
  "refused = JsError (str ''connect ECONNREFUSED'') None"

definition rejected_env :: "string env" where
  "rejected_env = demo_env\<lparr> getOperation := \<lambda>i. Inr (str ''extractText''),
       crawler_run := \<lambda>i opts start. \<lparr> handled = [], rejection = Some refused \<rparr> \<rparr>"

definition failing_env :: "string env" where
  "failing_env = demo_env\<lparr> continueOnFail := True, getUrl := \<lambda>i. Inr [] \<rparr>"

definition annotated :: "string item" where
  "annotated = \<lparr> json = ''{}'', error = Some (URL_is_required 0),
                 pairedItem = Some 0 \<rparr>"

definition claim_page :: fetched_page where
  "claim_page = \<lparr> request_url = str ''https://x.test/'',
                  anchors = [str ''/a'', str ''https://x.test/b'', str ''%%%''],
                  body_text = [], body = [] \<rparr>"

definition hostless_page :: fetched_page where
  "hostless_page = \<lparr> request_url = str ''https://x.test/?_=1700000000000'',
                     anchors = [str ''/a'', str ''https://x.test/b'', str ''https://''],
                     body_text = [], body = [] \<rparr>"

definition hostless_env :: "string env" where
  "hostless_env = demo_env\<lparr> crawler_run := \<lambda>i opts start. \<lparr> handled = [hostless_page], rejection = None \<rparr> \<rparr>"

section \<open>Strings\<close>

lemma unat_cu: "unat (cu c) = of_char c"
proof -
  have "(of_char c :: nat) < 256" by (rule nat_of_char_less_256)
  then have "(of_char c :: nat) mod 65536 = of_char c" by (intro mod_less) linarith
  then show ?thesis by (simp only: cu_def unat_of_nat) simp
qed

lemma cu_inj: "cu a = cu b \<longleftrightarrow> a = b"
proof
  assume "cu a = cu b"
  then have "unat (cu a) = unat (cu b)" by (rule arg_cong)
  then have "(of_char a :: nat) = of_char b" by (simp only: unat_cu)
  then show "a = b" by (rule of_char_eqI)
qed simp

lemma str_inj: "str a = str b \<longleftrightarrow> a = b"
  unfolding str_def using cu_inj by (simp add: inj_on_def inj_map_eq_map)

lemma str_Nil: "str s = [] \<longleftrightarrow> s = []"
  by (simp add: str_def)

lemma length_str: "length (str s) = length s"
  by (simp add: str_def)

lemma cu_in_str: "cu c \<in> set (str s) \<longleftrightarrow> c \<in> set s"
  by (auto simp: str_def cu_inj)

lemma length_truncateText: "length (truncateText t) \<le> 50003"
  by (simp add: truncateText_def substring0_def length_str)

lemma length_truncateHtml: "length (truncateHtml t) \<le> 100003"
  by (simp add: truncateHtml_def substring0_def length_str)

lemma decimal_numeral:
  "decimal (numeral k) =
     (if (numeral k :: nat) < 10 then [digit (numeral k)]
      else decimal (numeral k div 10) @ [digit (numeral k mod 10)])"
  by (rule decimal.simps)

lemma decimal_small: "n < 10 \<Longrightarrow> decimal n = [digit n]"
  by (simp add: decimal.simps)

lemma str_append: "str (a @ b) = str a @ str b"
  by (simp add: str_def)

lemma demo_timestamp: "number_to_string 1700000000000 = str ''1700000000000''"
  by (simp add: number_to_string_def decimal_numeral decimal_small digit_def str_def cu_def)

lemma demo_start:
  "appendTimestampToUrl 1700000000000 (str ''https://x.test/'') = str ''https://x.test/?_=1700000000000''"
  by (simp add: appendTimestampToUrl_def cu_in_str demo_timestamp flip: str_append)

section \<open>The blocks of one iteration\<close>

lemma finally_block_events:
  "finally_block env i crawler st = (if crawler then st\<lparr> events := events st @ [Teardown i] \<rparr> else st)"
  by (simp add: finally_block_def split: option.splits)

lemma op_literals_distinct:
  "str ''extractText'' \<noteq> str ''extractLinks''"
  "str ''extractHtml'' \<noteq> str ''extractLinks''"
  "str ''extractHtml'' \<noteq> str ''extractText''"
  by (simp_all add: str_inj)

lemma try_block_empty_url:
  "getUrl env i = Inr [] \<Longrightarrow> getOperation env i = Inr operation \<Longrightarrow>
   try_block env i st = (st, Throw (URL_is_required i), False)"
  by (simp add: try_block_def)

lemma catch_block_keeps:
  "events (fst (catch_block env i e st)) = events st \<and> returnData (fst (catch_block env i e st)) = returnData st"
  by (simp add: catch_block_def split: sum.splits option.splits)

lemma catch_block_raise:
  "\<not> continueOnFail env \<Longrightarrow> catch_block env i e st = (st, Throw (raised env i e))"
  by (simp add: catch_block_def raised_def split: option.splits)

lemma raised_URL_is_required: "raised env i (URL_is_required i) = URL_is_required i"
  by (simp add: raised_def URL_is_required_def)

lemma raised_cases:
  "\<exists>m. raised env i e = JsError m (Some (Some i))
       \<and> (error_context e \<noteq> None \<longrightarrow> m = error_message e)
       \<and> (error_context e = None \<longrightarrow> m = describeMessage env (error_message e))"
  by (cases "error_context e") (simp_all add: raised_def NodeOperationError_def)

text \<open>
  Claim C8. When the url parameter of an item is empty (or missing, where the default
  \<open>''\<close> is read), the try block throws the validation error ``URL is required'' carrying the
  item's index, whatever the operation is; processing the item calls no crawler (the
  event log is unchanged, so the number of fetches for the item is zero) and adds no
  record to the output; with continue-on-failure off that error is what the item raises.
\<close>

theorem empty_url_validation_error:
  assumes "getUrl env i = Inr []" and "getOperation env i = Inr operation"
  shows "try_block env i st = (st, Throw (URL_is_required i), False)
       \<and> events (fst (process_item env i st)) = events st
       \<and> returnData (fst (process_item env i st)) = returnData st
       \<and> (\<not> continueOnFail env \<longrightarrow>
            process_item env i st = (st, Throw (URL_is_required i)))"
proof -
  have tb: "try_block env i st = (st, Throw (URL_is_required i), False)"
    using assms by (rule try_block_empty_url)
  have pi: "process_item env i st = catch_block env i (URL_is_required i) st"
    by (simp add: process_item_def tb finally_block_events split: prod.splits)
  show ?thesis
    using tb pi catch_block_keeps[of env i "URL_is_required i" st]
    by (simp add: catch_block_raise raised_URL_is_required)
qed

theorem empty_url_validation_error_witness:
  "process_item (demo_env\<lparr> getUrl := \<lambda>i. Inr [] \<rparr>) 0 demo_state
     = (demo_state, Throw (URL_is_required 0))
   \<and> events (fst (process_item (demo_env\<lparr> getUrl := \<lambda>i. Inr [] \<rparr>) 0 demo_state)) = []"
  using empty_url_validation_error[of "demo_env\<lparr> getUrl := \<lambda>i. Inr [] \<rparr>" 0 "str ''extractLinks''" demo_state]
  by (simp add: demo_env_def demo_state_def)

text \<open>
  Claim C9. For an item whose url is non-empty and whose operation is none of
  \<open>extractLinks\<close>, \<open>extractText\<close>, \<open>extractHtml\<close>, processing the item changes nothing: no
  crawler is called, no record is appended to the output or to the items, and nothing
  is raised.
\<close>

theorem unknown_operation_skipped:
  assumes "getUrl env i = Inr url" and "url \<noteq> []" and "getOperation env i = Inr operation"
    and "operation \<noteq> str ''extractLinks''" and "operation \<noteq> str ''extractText''"
    and "operation \<noteq> str ''extractHtml''"
  shows "process_item env i st = (st, Normal)"
  using assms by (simp add: process_item_def try_block_def finally_block_events)

theorem unknown_operation_skipped_witness:
  "process_item (demo_env\<lparr> getOperation := \<lambda>i. Inr (str ''screenshot'') \<rparr>) 0 demo_state
     = (demo_state, Normal)"
  using unknown_operation_skipped[of "demo_env\<lparr> getOperation := \<lambda>i. Inr (str ''screenshot'') \<rparr>" 0
      "str ''https://x.test/''" "str ''screenshot''" demo_state]
  by (simp add: demo_env_def str_Nil str_inj)

lemma foldl_textHandler: "foldl (textHandler url) rd ps = rd @ map (text_record url) ps"
  by (induction ps arbitrary: rd) (simp_all add: textHandler_def text_record_def)

lemma foldl_htmlHandler: "foldl (htmlHandler url) rd ps = rd @ map (html_record url) ps"
  by (induction ps arbitrary: rd) (simp_all add: htmlHandler_def html_record_def)

lemma process_item_links:
  assumes "getUrl env i = Inr url" and "url \<noteq> []"
    and "getOperation env i = Inr (str ''extractLinks'')"
    and "getMaxDepth env i = Inr d" and "crawler_new env i (linksOptions d) = None"
  shows "process_item env i st =
     (let start = appendTimestampToUrl (dateNow env i) url;
          report = crawler_run env i (linksOptions d) start;
          st1 = st\<lparr> events := events st @ [Run i (linksOptions d) start] \<rparr>
      in case rejection report of
           None \<Rightarrow> (st1\<lparr> returnData := returnData st @
                         [links_record url (foldl (linksHandler env url) [] (handled report))] \<rparr>, Normal)
         | Some e \<Rightarrow> after_throw env i e st1)"
  using assms
  by (simp add: process_item_def try_block_def extractLinks_branch_def Let_def after_throw_def
      finally_block_events split: option.splits prod.splits)

lemma process_item_text:
  assumes "getUrl env i = Inr url" and "url \<noteq> []"
    and "getOperation env i = Inr (str ''extractText'')"
    and "crawler_new env i textOptions = None"
  shows "process_item env i st =
     (let start = appendTimestampToUrl (dateNow env i) url;
          report = crawler_run env i textOptions start;
          st1 = st\<lparr> events := events st @ [Run i textOptions start],
                    returnData := returnData st @ map (text_record url) (handled report) \<rparr>
      in case rejection report of
           None \<Rightarrow> (st1, Normal)
         | Some e \<Rightarrow> after_throw env i e st1)"
  using assms
  by (simp add: process_item_def try_block_def extractText_branch_def Let_def after_throw_def
      finally_block_events foldl_textHandler op_literals_distinct split: option.splits prod.splits)

lemma process_item_html:
  assumes "getUrl env i = Inr url" and "url \<noteq> []"
    and "getOperation env i = Inr (str ''extractHtml'')"
    and "crawler_new env i htmlOptions = None"
  shows "process_item env i st =
     (let start = appendTimestampToUrl (dateNow env i) url;
          report = crawler_run env i htmlOptions start;
          st1 = st\<lparr> events := events st @ [Run i htmlOptions start],
                    returnData := returnData st @ map (html_record url) (handled report) \<rparr>
      in case rejection report of
           None \<Rightarrow> (st1, Normal)
         | Some e \<Rightarrow> after_throw env i e st1)"
  using assms
  by (simp add: process_item_def try_block_def extractHtml_branch_def Let_def after_throw_def
      finally_block_events foldl_htmlHandler op_literals_distinct split: option.splits prod.splits)

lemma after_throw_events:
  "events (fst (after_throw env i e st1)) = events st1 @ [Teardown i]"
  "returnData (fst (after_throw env i e st1)) = returnData st1"
  using catch_block_keeps[of env i e st1]
  by (simp_all add: after_throw_def case_prod_beta)

lemma after_throw_raise:
  "\<not> continueOnFail env \<Longrightarrow>
   after_throw env i e st1 = (st1\<lparr> events := events st1 @ [Teardown i] \<rparr>, Throw (raised env i e))"
  by (simp add: after_throw_def catch_block_raise)

lemma process_item_events:
  assumes "getUrl env i = Inr url" and "url \<noteq> []"
    and "getOperation env i = Inr operation" and "is_operation operation"
    and "operation = str ''extractLinks'' \<Longrightarrow> getMaxDepth env i = Inr d"
    and "crawler_new env i (options_for operation d) = None"
  shows "events (fst (process_item env i st)) =
           events st @ Run i (options_for operation d) (appendTimestampToUrl (dateNow env i) url)
             # (case rejection (crawler_run env i (options_for operation d)
                    (appendTimestampToUrl (dateNow env i) url)) of
                  None \<Rightarrow> [] | Some e \<Rightarrow> [Teardown i])"
proof -
  consider "operation = str ''extractLinks''" | "operation = str ''extractText''"
    | "operation = str ''extractHtml''"
    using assms(4) by (auto simp: is_operation_def)
  then show ?thesis
  proof cases
    case 1
    then show ?thesis using assms
      by (simp add: process_item_links options_for_def Let_def after_throw_events split: option.splits)
  next
    case 2
    then show ?thesis using assms
      by (simp add: process_item_text options_for_def Let_def after_throw_events op_literals_distinct
          split: option.splits)
  next
    case 3
    then show ?thesis using assms
      by (simp add: process_item_html options_for_def Let_def after_throw_events op_literals_distinct
          split: option.splits)
  qed
qed

lemma limits_of_options_for:
  "is_operation operation \<Longrightarrow> limits_of (options_for operation d) = FetchLimits_spec operation d"
  by (auto simp: is_operation_def limits_of_def options_for_def FetchLimits_spec_def linksOptions_def
      textOptions_def htmlOptions_def op_literals_distinct)

text \<open>
  Claim C4. For an item with a non-empty url and one of the three operations, the crawler
  is run once, with options whose limits are the specification's FetchLimits for the
  operation and maxDepth: min(100, maxDepth * 50) requests and concurrency 5 for
  extractLinks (50 at maxDepth 1, 100 at maxDepth 3), one request and concurrency 1 for
  extractText and extractHtml, and a timeout of 30 seconds for all three.
\<close>

theorem fetch_limits_derived:
  assumes "getUrl env i = Inr url" and "url \<noteq> []"
    and "getOperation env i = Inr operation" and "is_operation operation"
    and "operation = str ''extractLinks'' \<Longrightarrow> getMaxDepth env i = Inr d"
    and "crawler_new env i (options_for operation d) = None"
  shows "maxRequestsPerCrawl (linksOptions 1) = 50 \<and> maxRequestsPerCrawl (linksOptions 3) = 100
       \<and> (\<exists>opts start tail.
           events (fst (process_item env i st)) = events st @ Run i opts start # tail
         \<and> (\<forall>k o' u. Run k o' u \<notin> set tail)
         \<and> limits_of opts = FetchLimits_spec operation d
         \<and> maxTotalRequests (limits_of opts) =
             (if operation = str ''extractLinks'' then min 100 (d * 50) else 1)
         \<and> maxConcurrencyLimit (limits_of opts) = (if operation = str ''extractLinks'' then 5 else 1)
         \<and> perRequestTimeout (limits_of opts) = 30)"
proof -
  let ?opts = "options_for operation d"
  let ?start = "appendTimestampToUrl (dateNow env i) url"
  let ?tail = "case rejection (crawler_run env i ?opts ?start) of None \<Rightarrow> [] | Some e \<Rightarrow> [Teardown i]"
  have ev: "events (fst (process_item env i st)) = events st @ Run i ?opts ?start # ?tail"
    using assms by (rule process_item_events)
  have nt: "\<forall>k o' u. Run k o' u \<notin> set ?tail"
    by (simp split: option.splits)
  have lim: "limits_of ?opts = FetchLimits_spec operation d"
    using assms(4) by (rule limits_of_options_for)
  have vals: "maxTotalRequests (FetchLimits_spec operation d) =
             (if operation = str ''extractLinks'' then min 100 (d * 50) else 1)
         \<and> maxConcurrencyLimit (FetchLimits_spec operation d) = (if operation = str ''extractLinks'' then 5 else 1)
         \<and> perRequestTimeout (FetchLimits_spec operation d) = 30"
    by (simp add: FetchLimits_spec_def)
  have ex: "\<exists>opts start tail.
           events (fst (process_item env i st)) = events st @ Run i opts start # tail
         \<and> (\<forall>k o' u. Run k o' u \<notin> set tail)
         \<and> limits_of opts = FetchLimits_spec operation d
         \<and> maxTotalRequests (limits_of opts) =
             (if operation = str ''extractLinks'' then min 100 (d * 50) else 1)
         \<and> maxConcurrencyLimit (limits_of opts) = (if operation = str ''extractLinks'' then 5 else 1)
         \<and> perRequestTimeout (limits_of opts) = 30"
    using ev nt lim vals by metis
  have "maxRequestsPerCrawl (linksOptions 1) = 50 \<and> maxRequestsPerCrawl (linksOptions 3) = 100"
    by (simp add: linksOptions_def)
  with ex show ?thesis by blast
qed

theorem fetch_limits_derived_witness:
  "\<exists>opts start tail.
      events (fst (process_item demo_env 0 demo_state)) = Run 0 opts start # tail
    \<and> maxTotalRequests (limits_of opts) = 100
    \<and> maxConcurrencyLimit (limits_of opts) = 5
    \<and> perRequestTimeout (limits_of opts) = 30"
  using fetch_limits_derived[of demo_env 0 "str ''https://x.test/''" "str ''extractLinks''" 3 demo_state]
  by (simp add: demo_env_def demo_state_def is_operation_def options_for_def str_Nil) blast

lemma rev_dropWhile_split:
  "x = rev (dropWhile P (rev x)) @ rev (takeWhile P (rev x))"
proof -
  have "rev (dropWhile P (rev x)) @ rev (takeWhile P (rev x))
        = rev (takeWhile P (rev x) @ dropWhile P (rev x))"
    by (simp only: rev_append)
  also have "\<dots> = rev (rev x)" by (simp only: takeWhile_dropWhile_id)
  also have "\<dots> = x" by simp
  finally show ?thesis by (rule sym)
qed

lemma trim_decomposition:
  "\<exists>pre suf. s = pre @ trim s @ suf \<and> (\<forall>c\<in>set pre. is_js_whitespace c) \<and> (\<forall>c\<in>set suf. is_js_whitespace c)"
proof -
  let ?P = is_js_whitespace
  let ?d = "dropWhile ?P s"
  have 1: "s = takeWhile ?P s @ ?d" by simp
  have 2: "?d = trim s @ rev (takeWhile ?P (rev ?d))"
    unfolding trim_def by (rule rev_dropWhile_split)
  have 3: "\<forall>c\<in>set (takeWhile ?P s). ?P c" by (auto dest: set_takeWhileD)
  have 4: "\<forall>c\<in>set (rev (takeWhile ?P (rev ?d))). ?P c" by (auto dest: set_takeWhileD)
  from 1 2 have "s = takeWhile ?P s @ trim s @ rev (takeWhile ?P (rev ?d))" by simp
  with 3 4 show ?thesis by blast
qed

lemma trim_ends:
  assumes "trim s \<noteq> []"
  shows "\<not> is_js_whitespace (hd (trim s)) \<and> \<not> is_js_whitespace (last (trim s))"
proof -
  let ?P = is_js_whitespace
  let ?d = "dropWhile ?P s"
  let ?e = "dropWhile ?P (rev ?d)"
  have e: "?e \<noteq> []"
  proof
    assume "?e = []"
    then have "trim s = []" by (simp only: trim_def rev.simps)
    with assms show False by simp
  qed
  have last: "last (trim s) = hd ?e" using e by (simp add: trim_def last_rev)
  have l: "\<not> ?P (hd ?e)" using e by (rule hd_dropWhile)
  have dne: "?d \<noteq> []"
  proof
    assume a: "?d = []"
    have "?e = []" unfolding a by simp
    with e show False by (rule notE)
  qed
  have d: "?d = trim s @ rev (takeWhile ?P (rev ?d))"
    unfolding trim_def by (rule rev_dropWhile_split)
  have "hd ?d = hd (trim s @ rev (takeWhile ?P (rev ?d)))" using d by (rule arg_cong)
  also have "\<dots> = hd (trim s)" using assms by (rule hd_append2)
  finally have "hd ?d = hd (trim s)" .
  moreover have "\<not> ?P (hd ?d)" using dne by (rule hd_dropWhile)
  ultimately show ?thesis using l last by simp
qed

lemma truncateText_cases:
  "truncateText t = (if 50000 < length t then take 50000 t @ str ''...'' else t)"
  by (simp add: truncateText_def substring0_def)

lemma truncateHtml_cases:
  "truncateHtml b = (if 100000 < length b then take 100000 b @ str ''...'' else b)"
  by (simp add: truncateHtml_def substring0_def)

text \<open>
  Claim C5. The text handler stores the trimmed body text, cut to its first 50000 code
  units followed by ``...'' when it is longer than 50000, so never more than 50003; the
  html handler does the same to the raw body with cap 100000, so never more than 100003;
  an input not longer than the cap is stored unchanged. Trimming removes exactly a
  whitespace prefix and a whitespace suffix, and what is left neither starts nor ends
  with whitespace.
\<close>

theorem text_html_truncation:
  "textHandler url rd page =
     rd @ [\<lparr> status = str ''success'', message = str ''Text extraction finished'',
              data = TextData url (truncateText (trim (body_text page))) \<rparr>]
   \<and> htmlHandler url rd page =
     rd @ [\<lparr> status = str ''success'', message = str ''HTML extraction finished'',
              data = HtmlData url (truncateHtml (body page)) \<rparr>]
   \<and> (\<exists>pre suf. body_text page = pre @ trim (body_text page) @ suf
         \<and> (\<forall>c\<in>set pre. is_js_whitespace c) \<and> (\<forall>c\<in>set suf. is_js_whitespace c))
   \<and> (trim (body_text page) \<noteq> [] \<longrightarrow>
         \<not> is_js_whitespace (hd (trim (body_text page))) \<and> \<not> is_js_whitespace (last (trim (body_text page))))
   \<and> length (truncateText t) \<le> 50003
   \<and> length (truncateHtml b) \<le> 100003
   \<and> (length t \<le> 50000 \<longrightarrow> truncateText t = t)
   \<and> (50000 < length t \<longrightarrow> truncateText t = take 50000 t @ str ''...'')
   \<and> (length b \<le> 100000 \<longrightarrow> truncateHtml b = b)
   \<and> (100000 < length b \<longrightarrow> truncateHtml b = take 100000 b @ str ''...'')"
proof -
  have a: "textHandler url rd page =
     rd @ [\<lparr> status = str ''success'', message = str ''Text extraction finished'',
              data = TextData url (truncateText (trim (body_text page))) \<rparr>]"
    by (simp add: textHandler_def)
  have b: "htmlHandler url rd page =
     rd @ [\<lparr> status = str ''success'', message = str ''HTML extraction finished'',
              data = HtmlData url (truncateHtml (body page)) \<rparr>]"
    by (simp add: htmlHandler_def)
  have c: "length (truncateText t) \<le> 50003" by (rule length_truncateText)
  have d: "length (truncateHtml b) \<le> 100003" by (rule length_truncateHtml)
  have e: "(length t \<le> 50000 \<longrightarrow> truncateText t = t)
       \<and> (50000 < length t \<longrightarrow> truncateText t = take 50000 t @ str ''...'')"
    by (simp add: truncateText_cases)
  have f: "(length b \<le> 100000 \<longrightarrow> truncateHtml b = b)
   \<and> (100000 < length b \<longrightarrow> truncateHtml b = take 100000 b @ str ''...'')"
    by (simp add: truncateHtml_cases)
  show ?thesis
    using a b c d e f trim_decomposition[of "body_text page"] trim_ends[of "body_text page"]
    by blast
qed

theorem text_html_truncation_witness:
  "textHandler (str ''u'') [] page_hi =
     [\<lparr> status = str ''success'', message = str ''Text extraction finished'',
        data = TextData (str ''u'') (str ''hi'') \<rparr>]
   \<and> truncateText (str ''hi'') = str ''hi''
   \<and> truncateText (replicate 50001 (cu CHR ''a'')) = replicate 50000 (cu CHR ''a'') @ str ''...''
   \<and> truncateHtml (str ''<p> hi </p>'') = str ''<p> hi </p>''
   \<and> truncateHtml (replicate 100001 (cu CHR ''a'')) = replicate 100000 (cu CHR ''a'') @ str ''...''
   \<and> length (truncateText (replicate 50001 (cu CHR ''a''))) = 50003"
proof -
  have tr: "trim (body_text page_hi) = str ''hi''"
    by (simp add: page_hi_def trim_def str_def cu_def is_js_whitespace_def)
  have small: "length (str ''hi'') \<le> 50000" "length (str ''<p> hi </p>'') \<le> 100000"
    by (simp_all add: length_str)
  have big: "50000 < length (replicate 50001 (cu CHR ''a''))"
     "100000 < length (replicate 100001 (cu CHR ''a''))"
    by simp_all
  note A = text_html_truncation[of "str ''u''" "[]" page_hi "str ''hi''" "str ''<p> hi </p>''"]
  note B = text_html_truncation[of "str ''u''" "[]" page_hi "replicate 50001 (cu CHR ''a'')"
      "replicate 100001 (cu CHR ''a'')"]
  have 1: "textHandler (str ''u'') [] page_hi =
     [\<lparr> status = str ''success'', message = str ''Text extraction finished'',
        data = TextData (str ''u'') (str ''hi'') \<rparr>]"
    using A tr small(1) by (simp add: truncateText_cases)
  have 2: "truncateText (str ''hi'') = str ''hi''" using A small by blast
  have 3: "truncateHtml (str ''<p> hi </p>'') = str ''<p> hi </p>''" using A small by blast
  have 4: "truncateText (replicate 50001 (cu CHR ''a'')) = replicate 50000 (cu CHR ''a'') @ str ''...''"
    using B big by simp
  have 5: "truncateHtml (replicate 100001 (cu CHR ''a'')) = replicate 100000 (cu CHR ''a'') @ str ''...''"
    using B big by simp
  have 6: "length (truncateText (replicate 50001 (cu CHR ''a''))) = 50003"
    by (simp add: 4 length_str)
  show ?thesis using 1 2 3 4 5 6 by blast
qed

lemma collect_links_eq:
  "collect_links env base hrefs ls =
     ls @ List.map_filter (\<lambda>href. if href \<noteq> [] then URL_new env href base else None) hrefs"
  by (induction hrefs arbitrary: ls) (simp_all add: map_filter_simps split: option.splits)

lemma foldl_linksHandler:
  "foldl (linksHandler env url) cd ps =
     cd @ map (\<lambda>p. \<lparr> crawled_url = url, crawled_links = resolved_links env p \<rparr>) ps"
  by (induction ps arbitrary: cd)
     (simp_all add: linksHandler_def collect_links_eq resolved_links_def)

lemma links_record_eq:
  "links_record url (foldl (linksHandler env url) [] ps) =
     \<lparr> status = str ''success'', message = str ''Crawling finished'',
       data = LinksData url (spread_new_Set (concat (map (resolved_links env) ps))) \<rparr>"
  by (simp add: links_record_def foldl_linksHandler comp_def)































lemma list_all_tl: "list_all P xs \<Longrightarrow> list_all P (tl xs)"
  by (cases xs) simp_all





























lemma URL_href_examples:
  "URL_href (str ''/a'') (str ''https://x.test/?_=1700000000000'') = Parsed (str ''https://x.test/a'')"
  "URL_href (str ''https://x.test/b'') (str ''https://x.test/?_=1700000000000'') = Parsed (str ''https://x.test/b'')"
  "URL_href (str ''https://'') (str ''https://x.test/?_=1700000000000'') = Failure"
  "URL_href (str ''/a'') (str ''https://x.test/'') = Parsed (str ''https://x.test/a'')"
  "URL_href (str ''https://x.test/b'') (str ''https://x.test/'') = Parsed (str ''https://x.test/b'')"
  "URL_href (str ''%%%'') (str ''https://x.test/'') = Parsed (str ''https://x.test/%%%'')"
  by code_simp+



section \<open>Failed runs, teardown, the fetched url and continue-on-failure\<close>

lemma process_item_returnData:
  assumes "getUrl env i = Inr url" and "url \<noteq> []"
    and "getOperation env i = Inr operation" and "is_operation operation"
    and "operation = str ''extractLinks'' \<Longrightarrow> getMaxDepth env i = Inr d"
    and "crawler_new env i (options_for operation d) = None"
    and "crawler_run env i (options_for operation d) (appendTimestampToUrl (dateNow env i) url) = report"
  shows "returnData (fst (process_item env i st)) =
           returnData st @
             (if operation = str ''extractLinks'' then
                (case rejection report of
                   None \<Rightarrow> [\<lparr> status = str ''success'', message = str ''Crawling finished'',
                              data = LinksData url
                                (spread_new_Set (concat (map (resolved_links env) (handled report)))) \<rparr>]
                 | Some e \<Rightarrow> [])
              else if operation = str ''extractText'' then map (text_record url) (handled report)
              else map (html_record url) (handled report))"
proof -
  consider "operation = str ''extractLinks''" | "operation = str ''extractText''"
    | "operation = str ''extractHtml''"
    using assms(4) by (auto simp: is_operation_def)
  then show ?thesis
  proof cases
    case 1
    then show ?thesis using assms
      by (simp add: process_item_links options_for_def Let_def after_throw_events links_record_eq
          split: option.splits)
  next
    case 2
    then show ?thesis using assms
      by (simp add: process_item_text options_for_def Let_def after_throw_events op_literals_distinct
          split: option.splits)
  next
    case 3
    then show ?thesis using assms
      by (simp add: process_item_html options_for_def Let_def after_throw_events op_literals_distinct
          split: option.splits)
  qed
qed

lemma process_item_completion:
  assumes "getUrl env i = Inr url" and "url \<noteq> []"
    and "getOperation env i = Inr operation" and "is_operation operation"
    and "operation = str ''extractLinks'' \<Longrightarrow> getMaxDepth env i = Inr d"
    and "crawler_new env i (options_for operation d) = None"
    and "crawler_run env i (options_for operation d) (appendTimestampToUrl (dateNow env i) url) = report"
  shows "rejection report = None \<Longrightarrow> snd (process_item env i st) = Normal"
    and "rejection report = Some e \<Longrightarrow> \<not> continueOnFail env \<Longrightarrow>
         snd (process_item env i st) = Throw (raised env i e)"
proof -
  consider "operation = str ''extractLinks''" | "operation = str ''extractText''"
    | "operation = str ''extractHtml''"
    using assms(4) by (auto simp: is_operation_def)
  note cs = this
  show "rejection report = None \<Longrightarrow> snd (process_item env i st) = Normal"
    using cs
  proof cases
    case 1
    then show "rejection report = None \<Longrightarrow> ?thesis" using assms
      by (simp add: process_item_links options_for_def Let_def)
  next
    case 2
    then show "rejection report = None \<Longrightarrow> ?thesis" using assms
      by (simp add: process_item_text options_for_def Let_def op_literals_distinct)
  next
    case 3
    then show "rejection report = None \<Longrightarrow> ?thesis" using assms
      by (simp add: process_item_html options_for_def Let_def op_literals_distinct)
  qed
  show "rejection report = Some e \<Longrightarrow> \<not> continueOnFail env \<Longrightarrow>
         snd (process_item env i st) = Throw (raised env i e)"
    using cs
  proof cases
    case 1
    then show "rejection report = Some e \<Longrightarrow> \<not> continueOnFail env \<Longrightarrow> ?thesis" using assms
      by (simp add: process_item_links options_for_def Let_def after_throw_raise)
  next
    case 2
    then show "rejection report = Some e \<Longrightarrow> \<not> continueOnFail env \<Longrightarrow> ?thesis" using assms
      by (simp add: process_item_text options_for_def Let_def op_literals_distinct after_throw_raise)
  next
    case 3
    then show "rejection report = Some e \<Longrightarrow> \<not> continueOnFail env \<Longrightarrow> ?thesis" using assms
      by (simp add: process_item_html options_for_def Let_def op_literals_distinct after_throw_raise)
  qed
qed

text \<open>
  Claim C1, as the code has it. For an item with a non-empty url and one of the three
  operations whose run handled no page: when the run is rejected, no record is added to
  the output and, with continue-on-failure off, the item raises an error that carries the
  item's index: the run's error itself when it has a context, and otherwise a
  \<open>NodeOperationError\<close> built from it, with the message the library derives from the run's
  message; when the run resolves, the item completes normally, extractLinks adds a
  success record whose link list is empty, and extractText and extractHtml add no
  record at all (never a success with an empty string).
\<close>

theorem zero_pages_outcome:
  assumes "getUrl env i = Inr url" and "url \<noteq> []"
    and "getOperation env i = Inr operation" and "is_operation operation"
    and "operation = str ''extractLinks'' \<Longrightarrow> getMaxDepth env i = Inr d"
    and "crawler_new env i (options_for operation d) = None"
    and "crawler_run env i (options_for operation d) (appendTimestampToUrl (dateNow env i) url) = report"
    and "handled report = []"
  shows "(case rejection report of
            Some e \<Rightarrow>
              returnData (fst (process_item env i st)) = returnData st
              \<and> (\<not> continueOnFail env \<longrightarrow>
                   (\<exists>m. snd (process_item env i st) = Throw (JsError m (Some (Some i)))
                      \<and> (error_context e \<noteq> None \<longrightarrow> m = error_message e)
                      \<and> (error_context e = None \<longrightarrow> m = describeMessage env (error_message e))))
          | None \<Rightarrow>
              snd (process_item env i st) = Normal
              \<and> returnData (fst (process_item env i st)) =
                  returnData st @
                    (if operation = str ''extractLinks''
                     then [\<lparr> status = str ''success'', message = str ''Crawling finished'',
                              data = LinksData url [] \<rparr>]
                     else []))"
proof (cases "rejection report")
  case None
  have "snd (process_item env i st) = Normal"
    using assms(1-7) None by (rule process_item_completion(1))
  moreover have "returnData (fst (process_item env i st)) =
                  returnData st @
                    (if operation = str ''extractLinks''
                     then [\<lparr> status = str ''success'', message = str ''Crawling finished'',
                              data = LinksData url [] \<rparr>]
                     else [])"
    using process_item_returnData[OF assms(1-7), of st] None assms(8)
    by (simp add: spread_new_Set_def)
  ultimately show ?thesis using None by simp
next
  case (Some e)
  have "returnData (fst (process_item env i st)) = returnData st"
    using process_item_returnData[OF assms(1-7), of st] Some assms(8) by simp
  moreover have "\<not> continueOnFail env \<longrightarrow>
                   (\<exists>m. snd (process_item env i st) = Throw (JsError m (Some (Some i)))
                      \<and> (error_context e \<noteq> None \<longrightarrow> m = error_message e)
                      \<and> (error_context e = None \<longrightarrow> m = describeMessage env (error_message e)))"
    using process_item_completion(2)[OF assms(1-7) Some] raised_cases[of env i e] by auto
  ultimately show ?thesis using Some by simp
qed

theorem zero_pages_outcome_witness:
  "returnData (fst (process_item rejected_env 0 demo_state)) = []
   \<and> snd (process_item rejected_env 0 demo_state)
       = Throw (JsError (str ''The service refused the connection - perhaps it is offline'')
                  (Some (Some 0)))
   \<and> snd (process_item (no_pages_env\<lparr> getOperation := \<lambda>i. Inr (str ''extractHtml'') \<rparr>) 0 demo_state) = Normal
   \<and> returnData (fst (process_item (no_pages_env\<lparr> getOperation := \<lambda>i. Inr (str ''extractHtml'') \<rparr>) 0 demo_state)) = []"
proof -
  have a: "crawler_run rejected_env 0 (options_for (str ''extractText'') 3)
             (appendTimestampToUrl (dateNow rejected_env 0) (str ''https://x.test/''))
           = \<lparr> handled = [], rejection = Some refused \<rparr>"
    by (simp add: rejected_env_def demo_env_def)
  have b: "crawler_run (no_pages_env\<lparr> getOperation := \<lambda>i. Inr (str ''extractHtml'') \<rparr>) 0
             (options_for (str ''extractHtml'') 3)
             (appendTimestampToUrl (dateNow (no_pages_env\<lparr> getOperation := \<lambda>i. Inr (str ''extractHtml'') \<rparr>) 0)
                (str ''https://x.test/''))
           = \<lparr> handled = [], rejection = None \<rparr>"
    by (simp add: no_pages_env_def demo_env_def)
  have A: "returnData (fst (process_item rejected_env 0 demo_state)) = []
   \<and> snd (process_item rejected_env 0 demo_state)
       = Throw (JsError (str ''The service refused the connection - perhaps it is offline'')
                  (Some (Some 0)))"
    using zero_pages_outcome[OF _ _ _ _ _ _ a, of demo_state]
    by (auto simp: rejected_env_def demo_env_def demo_state_def refused_def is_operation_def str_Nil
        demo_describe_def)
  have B: "snd (process_item (no_pages_env\<lparr> getOperation := \<lambda>i. Inr (str ''extractHtml'') \<rparr>) 0 demo_state) = Normal
   \<and> returnData (fst (process_item (no_pages_env\<lparr> getOperation := \<lambda>i. Inr (str ''extractHtml'') \<rparr>) 0 demo_state)) = []"
    using zero_pages_outcome[OF _ _ _ _ _ _ b, of demo_state]
    by (simp add: no_pages_env_def demo_env_def demo_state_def is_operation_def str_Nil op_literals_distinct)
  show ?thesis using A B by blast
qed

text \<open>
  Claim C1 as stated fails: a run that handles no page and is not rejected gives, for
  extractLinks, a success record with an empty link list and a normal completion.
\<close>

theorem zero_pages_success_counterexample:
  "handled (crawler_run no_pages_env 0 (linksOptions 3) (str ''https://x.test/?_=1700000000000'')) = []
   \<and> process_item no_pages_env 0 demo_state =
       (demo_state\<lparr> events := [Run 0 (linksOptions 3) (str ''https://x.test/?_=1700000000000'')],
                     returnData := [\<lparr> status = str ''success'', message = str ''Crawling finished'',
                                       data = LinksData (str ''https://x.test/'') [] \<rparr>] \<rparr>,
        Normal)"
  by (simp add: process_item_links[of _ _ "str ''https://x.test/''" 3] no_pages_env_def demo_env_def
      demo_state_def str_Nil demo_start Let_def links_record_def spread_new_Set_def)

lemma collect_links_teardown_error:
  "collect_links (env\<lparr> teardown_error := f \<rparr>) base hrefs ls = collect_links env base hrefs ls"
  by (simp add: collect_links_eq cong: if_cong)

lemma linksHandler_teardown_error:
  "linksHandler (env\<lparr> teardown_error := f \<rparr>) = linksHandler env"
  by (intro ext) (simp add: linksHandler_def collect_links_teardown_error)

lemma try_block_teardown_error:
  "try_block (env\<lparr> teardown_error := f \<rparr>) i st = try_block env i st"
  by (simp add: try_block_def extractLinks_branch_def extractText_branch_def extractHtml_branch_def
      linksHandler_teardown_error cong: if_cong sum.case_cong option.case_cong)

lemma catch_block_teardown_error:
  "catch_block (env\<lparr> teardown_error := f \<rparr>) i e st = catch_block env i e st"
  by (simp add: catch_block_def input_json_def NodeOperationError_def
      cong: if_cong sum.case_cong option.case_cong)

lemma process_item_teardown_error:
  "process_item (env\<lparr> teardown_error := f \<rparr>) i st = process_item env i st"
  by (simp add: process_item_def try_block_teardown_error catch_block_teardown_error
      finally_block_events cong: prod.case_cong completion.case_cong)

text \<open>
  Claim C3, as the code has it. For an item that builds a crawler, \<open>execute\<close> runs it once
  and calls \<open>teardown\<close> exactly once when the run was rejected and not at all when it
  resolved (the variable \<open>crawler\<close> is reset after a run that resolved); after a rejected run
  with continue-on-failure off, the teardown is the last call made before an error with
  the item's index reaches the caller; an error thrown by \<open>teardown\<close> changes nothing.
\<close>

theorem teardown_only_after_rejected_run:
  assumes "getUrl env i = Inr url" and "url \<noteq> []"
    and "getOperation env i = Inr operation" and "is_operation operation"
    and "operation = str ''extractLinks'' \<Longrightarrow> getMaxDepth env i = Inr d"
    and "crawler_new env i (options_for operation d) = None"
    and "crawler_run env i (options_for operation d) (appendTimestampToUrl (dateNow env i) url) = report"
  shows "events (fst (process_item env i st)) =
           events st @ Run i (options_for operation d) (appendTimestampToUrl (dateNow env i) url)
             # (case rejection report of None \<Rightarrow> [] | Some e \<Rightarrow> [Teardown i])
       \<and> count_list (events (fst (process_item env i st))) (Teardown i) =
           count_list (events st) (Teardown i) + (case rejection report of None \<Rightarrow> 0 | Some e \<Rightarrow> 1)
       \<and> (\<forall>e. rejection report = Some e \<and> \<not> continueOnFail env \<longrightarrow>
             (\<exists>m. snd (process_item env i st) = Throw (JsError m (Some (Some i))))
             \<and> last (events (fst (process_item env i st))) = Teardown i)
       \<and> process_item (env\<lparr> teardown_error := f \<rparr>) i st = process_item env i st"
proof -
  have ev: "events (fst (process_item env i st)) =
           events st @ Run i (options_for operation d) (appendTimestampToUrl (dateNow env i) url)
             # (case rejection report of None \<Rightarrow> [] | Some e \<Rightarrow> [Teardown i])"
    using process_item_events[OF assms(1-6), of st] assms(7) by simp
  have cnt: "count_list (events (fst (process_item env i st))) (Teardown i) =
           count_list (events st) (Teardown i) + (case rejection report of None \<Rightarrow> 0 | Some e \<Rightarrow> 1)"
    unfolding ev by (simp split: option.splits)
  have thr: "\<forall>e. rejection report = Some e \<and> \<not> continueOnFail env \<longrightarrow>
             (\<exists>m. snd (process_item env i st) = Throw (JsError m (Some (Some i))))
             \<and> last (events (fst (process_item env i st))) = Teardown i"
  proof (intro allI impI, elim conjE)
    fix e assume r: "rejection report = Some e" and c: "\<not> continueOnFail env"
    have "snd (process_item env i st) = Throw (raised env i e)"
      using assms(1-7) r c by (rule process_item_completion(2))
    then have "\<exists>m. snd (process_item env i st) = Throw (JsError m (Some (Some i)))"
      using raised_cases[of env i e] by auto
    moreover have "last (events (fst (process_item env i st))) = Teardown i"
      unfolding ev using r by simp
    ultimately show "(\<exists>m. snd (process_item env i st) = Throw (JsError m (Some (Some i))))
             \<and> last (events (fst (process_item env i st))) = Teardown i" by blast
  qed
  show ?thesis
    using ev cnt thr process_item_teardown_error[of f env i st] by blast
qed

theorem teardown_only_after_rejected_run_witness:
  "events (fst (process_item rejected_env 0 demo_state)) =
     [Run 0 textOptions (str ''https://x.test/?_=1700000000000''), Teardown 0]
   \<and> count_list (events (fst (process_item rejected_env 0 demo_state))) (Teardown 0) = 1
   \<and> (\<exists>m. snd (process_item rejected_env 0 demo_state) = Throw (JsError m (Some (Some 0))))"
proof -
  have a: "crawler_run rejected_env 0 (options_for (str ''extractText'') 3)
             (appendTimestampToUrl (dateNow rejected_env 0) (str ''https://x.test/''))
           = \<lparr> handled = [], rejection = Some refused \<rparr>"
    by (simp add: rejected_env_def demo_env_def)
  show ?thesis
    using teardown_only_after_rejected_run[OF _ _ _ _ _ _ a, of demo_state]
    by (simp add: rejected_env_def demo_env_def demo_state_def refused_def is_operation_def str_Nil
        options_for_def op_literals_distinct demo_start)
qed

text \<open>
  Claim C3 as stated fails on the success path: the item completes normally and
  \<open>teardown\<close> is called zero times.
\<close>

theorem no_teardown_on_success_counterexample:
  "events (fst (process_item demo_env 0 demo_state)) =
     [Run 0 (linksOptions 3) (str ''https://x.test/?_=1700000000000'')]
   \<and> snd (process_item demo_env 0 demo_state) = Normal
   \<and> count_list (events (fst (process_item demo_env 0 demo_state))) (Teardown 0) = 0"
  by (simp add: process_item_links[of _ _ "str ''https://x.test/''" 3] demo_env_def
      demo_state_def str_Nil demo_start Let_def)

lemma appendTimestampToUrl_eq:
  "appendTimestampToUrl now url =
     url @ (if cu CHR ''?'' \<in> set url then str ''&'' else str ''?'') @ str ''_='' @ number_to_string now"
  by (simp add: appendTimestampToUrl_def)

lemma appendTimestampToUrl_neq: "appendTimestampToUrl now url \<noteq> url"
proof
  assume "appendTimestampToUrl now url = url"
  then have "length (appendTimestampToUrl now url) = length url" by (rule arg_cong)
  then show False by (simp add: appendTimestampToUrl_eq length_str)
qed

lemma data_url_records:
  "data_url (data (text_record url p)) = url" "status (text_record url p) = str ''success''"
  "data_url (data (html_record url p)) = url" "status (html_record url p) = str ''success''"
  by (simp_all add: text_record_def html_record_def)

text \<open>
  Claim C10. For an item with a non-empty url and one of the three operations, the one
  run of the crawler is started on the url followed by \<open>&\<close> (when the url contains \<open>?\<close>) or
  \<open>?\<close>, then \<open>_=\<close> and the decimal timestamp; every record the item adds to the output is a
  success record whose \<open>url\<close> is the url as supplied, whatever \<open>request.url\<close> the handled pages
  report, and the url supplied never equals the url fetched.
\<close>

theorem fetch_timestamped_payload_original:
  assumes "getUrl env i = Inr url" and "url \<noteq> []"
    and "getOperation env i = Inr operation" and "is_operation operation"
    and "operation = str ''extractLinks'' \<Longrightarrow> getMaxDepth env i = Inr d"
    and "crawler_new env i (options_for operation d) = None"
  shows "(\<exists>tail. events (fst (process_item env i st)) =
            events st @ Run i (options_for operation d)
              (url @ (if cu CHR ''?'' \<in> set url then str ''&'' else str ''?'') @ str ''_=''
                 @ number_to_string (dateNow env i)) # tail
          \<and> (\<forall>k o' u. Run k o' u \<notin> set tail))
       \<and> (\<exists>new. returnData (fst (process_item env i st)) = returnData st @ new
          \<and> (\<forall>r\<in>set new. status r = str ''success'' \<and> data_url (data r) = url))
       \<and> appendTimestampToUrl (dateNow env i) url \<noteq> url"
proof -
  let ?start = "appendTimestampToUrl (dateNow env i) url"
  let ?report = "crawler_run env i (options_for operation d) ?start"
  let ?tail = "case rejection ?report of None \<Rightarrow> [] | Some e \<Rightarrow> [Teardown i]"
  have ev: "events (fst (process_item env i st)) =
           events st @ Run i (options_for operation d) ?start # ?tail"
    using assms by (rule process_item_events)
  have nt: "\<forall>k o' u. Run k o' u \<notin> set ?tail" by (simp split: option.splits)
  have 1: "\<exists>tail. events (fst (process_item env i st)) =
            events st @ Run i (options_for operation d)
              (url @ (if cu CHR ''?'' \<in> set url then str ''&'' else str ''?'') @ str ''_=''
                 @ number_to_string (dateNow env i)) # tail
          \<and> (\<forall>k o' u. Run k o' u \<notin> set tail)"
    using ev nt unfolding appendTimestampToUrl_eq by blast
  let ?new = "if operation = str ''extractLinks'' then
                (case rejection ?report of
                   None \<Rightarrow> [\<lparr> status = str ''success'', message = str ''Crawling finished'',
                              data = LinksData url
                                (spread_new_Set (concat (map (resolved_links env) (handled ?report)))) \<rparr>]
                 | Some e \<Rightarrow> [])
              else if operation = str ''extractText'' then map (text_record url) (handled ?report)
              else map (html_record url) (handled ?report)"
  have rd: "returnData (fst (process_item env i st)) = returnData st @ ?new"
    using assms refl by (rule process_item_returnData)
  have ok: "\<forall>r\<in>set ?new. status r = str ''success'' \<and> data_url (data r) = url"
    by (auto simp: data_url_records split: option.splits)
  have 2: "\<exists>new. returnData (fst (process_item env i st)) = returnData st @ new
          \<and> (\<forall>r\<in>set new. status r = str ''success'' \<and> data_url (data r) = url)"
    using rd ok by blast
  show ?thesis using 1 2 appendTimestampToUrl_neq by blast
qed

theorem fetch_timestamped_payload_original_witness:
  "(\<exists>tail. events (fst (process_item demo_env 0 demo_state)) =
       Run 0 (linksOptions 3) (str ''https://x.test/?_=1700000000000'') # tail)
   \<and> (\<exists>new. returnData (fst (process_item demo_env 0 demo_state)) = new
        \<and> (\<forall>r\<in>set new. data_url (data r) = str ''https://x.test/''))"
  using fetch_timestamped_payload_original[of demo_env 0 "str ''https://x.test/''" "str ''extractLinks''" 3
      demo_state]
  by (simp add: demo_env_def demo_state_def is_operation_def options_for_def str_Nil cu_in_str
      demo_timestamp flip: str_append) blast

text \<open>
  The two branches of the catch block, seen from the loop: with continue-on-failure off
  the error leaves the loop at once, carrying the item's index; with it on, the
  annotated payload is appended to \<open>items\<close> and the loop goes on.
\<close>

lemma failure_raised_when_continue_off:
  assumes "\<not> continueOnFail env" and "try_block env i st = (st1, Throw e, crawler)"
    and "i < length (items st)"
  shows "item_loop (Suc fuel) env i st =
           Some (finally_block env i crawler st1, Throw (raised env i e))"
  using assms by (simp add: process_item_def catch_block_raise)

lemma continue_on_fail_pushes_onto_items:
  assumes "continueOnFail env" and "try_block env i st = (st1, Throw e, crawler)"
    and "input_json env st1 i = Inr j"
  shows "process_item env i st =
           (finally_block env i crawler
              (st1\<lparr> items := items st1 @ [\<lparr> json = j, error = Some e, pairedItem = Some i \<rparr>] \<rparr>),
            Normal)"
  using assms by (simp add: process_item_def catch_block_def)

text \<open>
  Claim C2, evaluated on a failing input. One input item, the url parameter empty,
  continue-on-failure on, and a host with no second input: the catch block pushes the
  annotated payload onto \<open>items\<close>, not onto \<open>returnData\<close>; the loop then visits the pushed
  record as item 1, which fails the same way, and the catch block's
  \<open>this.getInputData(1)[0].json\<close> throws. The output holds no record and \<open>execute\<close> raises.
\<close>

theorem continue_on_fail_loses_error_record:
  "execute 3 failing_env [\<lparr> json = ''{}'', error = None, pairedItem = None \<rparr>] =
     Some (\<lparr> items = [\<lparr> json = ''{}'', error = None, pairedItem = None \<rparr>, annotated],
             returnData = [], events = [] \<rparr>,
           Throw TypeError_undefined)"
proof -
  let ?item = "\<lparr> json = ''{}'', error = None, pairedItem = None \<rparr> :: string item"
  let ?st0 = "\<lparr> items = [?item], returnData = [], events = [] \<rparr> :: string exec_state"
  let ?st1 = "\<lparr> items = [?item, annotated], returnData = [], events = [] \<rparr> :: string exec_state"
  have t: "\<And>i st. try_block failing_env i st
             = (st, Throw (URL_is_required i), False)"
    by (simp add: try_block_def failing_env_def demo_env_def)
  have p0: "process_item failing_env 0 ?st0 = (?st1, Normal)"
    by (simp add: process_item_def t catch_block_def input_json_def finally_block_events annotated_def)
       (simp add: failing_env_def demo_env_def)
  have p1: "process_item failing_env (Suc 0) ?st1 = (?st1, Throw TypeError_undefined)"
    by (simp add: process_item_def t catch_block_def input_json_def finally_block_events)
       (simp add: failing_env_def demo_env_def)
  have "execute 3 failing_env [?item] = item_loop (Suc (Suc (Suc 0))) failing_env 0 ?st0"
    by (simp add: execute_def numeral_3_eq_3)
  also have "\<dots> = item_loop (Suc (Suc 0)) failing_env (Suc 0) ?st1"
    by (simp add: p0)
  also have "\<dots> = Some (?st1, Throw TypeError_undefined)"
    by (simp add: p1)
  finally show ?thesis .
qed

section \<open>Hrefs the URL constructor rejects\<close>

text \<open>
  Claim C7, as the code has it. For a page with three anchors of which the URL
  constructor resolves the first two, to different URLs, and throws on the third, the
  links handler records exactly the two resolved URLs, and the item completes normally
  with a success record holding them: the rejected href is dropped and no error
  surfaces or ends the crawl.
\<close>

theorem rejected_hrefs_dropped:
  assumes "getUrl env i = Inr url" and "url \<noteq> []"
    and "getOperation env i = Inr (str ''extractLinks'')"
    and "getMaxDepth env i = Inr d" and "crawler_new env i (linksOptions d) = None"
    and "crawler_run env i (linksOptions d) (appendTimestampToUrl (dateNow env i) url)
           = \<lparr> handled = [page], rejection = None \<rparr>"
    and "anchors page = [h1, h2, h3]" and "h1 \<noteq> []" and "h2 \<noteq> []"
    and "URL_new env h1 (request_url page) = Some u1"
    and "URL_new env h2 (request_url page) = Some u2" and "u1 \<noteq> u2"
    and "URL_new env h3 (request_url page) = None"
  shows "linksHandler env url cd page = cd @ [\<lparr> crawled_url = url, crawled_links = [u1, u2] \<rparr>]
       \<and> process_item env i st =
           (st\<lparr> events := events st @ [Run i (linksOptions d) (appendTimestampToUrl (dateNow env i) url)],
                returnData := returnData st @
                  [\<lparr> status = str ''success'', message = str ''Crawling finished'',
                     data = LinksData url [u1, u2] \<rparr>] \<rparr>,
            Normal)"
proof -
  have rl: "resolved_links env page = [u1, u2]"
    using assms(7-13) by (simp add: resolved_links_def map_filter_simps)
  have lh: "linksHandler env url cd page = cd @ [\<lparr> crawled_url = url, crawled_links = [u1, u2] \<rparr>]"
    using foldl_linksHandler[of env url cd "[page]"] rl by simp
  have lh0: "linksHandler env url [] page = [\<lparr> crawled_url = url, crawled_links = [u1, u2] \<rparr>]"
    using foldl_linksHandler[of env url "[]" "[page]"] rl by simp
  have sp: "spread_new_Set [u1, u2] = [u1, u2]"
    using assms(12) by (simp add: spread_new_Set_def)
  have "process_item env i st =
           (st\<lparr> events := events st @ [Run i (linksOptions d) (appendTimestampToUrl (dateNow env i) url)],
                returnData := returnData st @
                  [\<lparr> status = str ''success'', message = str ''Crawling finished'',
                     data = LinksData url [u1, u2] \<rparr>] \<rparr>,
            Normal)"
    using assms(1-6) lh0 sp by (simp add: process_item_links Let_def links_record_def)
  with lh show ?thesis by blast
qed

theorem rejected_hrefs_dropped_witness:
  "URL_href (str ''https://'') (str ''https://x.test/?_=1700000000000'') = Failure
   \<and> linksHandler hostless_env (str ''https://x.test/'') [] hostless_page =
       [\<lparr> crawled_url = str ''https://x.test/'',
          crawled_links = [str ''https://x.test/a'', str ''https://x.test/b''] \<rparr>]
   \<and> process_item hostless_env 0 demo_state =
       (demo_state\<lparr> events := [Run 0 (linksOptions 3) (str ''https://x.test/?_=1700000000000'')],
            returnData := [\<lparr> status = str ''success'', message = str ''Crawling finished'',
                 data = LinksData (str ''https://x.test/'')
                          [str ''https://x.test/a'', str ''https://x.test/b''] \<rparr>] \<rparr>,
        Normal)"
proof -
  have r: "crawler_run hostless_env 0 (linksOptions 3)
             (appendTimestampToUrl (dateNow hostless_env 0) (str ''https://x.test/''))
           = \<lparr> handled = [hostless_page], rejection = None \<rparr>"
    by (simp add: hostless_env_def demo_env_def)
  have a: "anchors hostless_page = [str ''/a'', str ''https://x.test/b'', str ''https://'']"
    by (simp add: hostless_page_def)
  have u: "URL_new hostless_env (str ''/a'') (request_url hostless_page) = Some (str ''https://x.test/a'')"
     "URL_new hostless_env (str ''https://x.test/b'') (request_url hostless_page) = Some (str ''https://x.test/b'')"
     "URL_new hostless_env (str ''https://'') (request_url hostless_page) = None"
    by (simp_all add: hostless_env_def demo_env_def hostless_page_def demo_URL_def URL_href_examples)
  have ne: "str ''/a'' \<noteq> []" "str ''https://x.test/b'' \<noteq> []"
     "str ''https://x.test/a'' \<noteq> str ''https://x.test/b''"
    by (simp_all add: str_Nil str_inj)
  have "linksHandler hostless_env (str ''https://x.test/'') [] hostless_page =
          [] @ [\<lparr> crawled_url = str ''https://x.test/'',
          crawled_links = [str ''https://x.test/a'', str ''https://x.test/b''] \<rparr>]
       \<and> process_item hostless_env 0 demo_state =
           (demo_state\<lparr> events := events demo_state @ [Run 0 (linksOptions 3)
                  (appendTimestampToUrl (dateNow hostless_env 0) (str ''https://x.test/''))],
                returnData := returnData demo_state @
                  [\<lparr> status = str ''success'', message = str ''Crawling finished'',
                     data = LinksData (str ''https://x.test/'') [str ''https://x.test/a'', str ''https://x.test/b''] \<rparr>] \<rparr>,
            Normal)"
    by (rule rejected_hrefs_dropped[OF _ _ _ _ _ r a ne(1) ne(2) u(1) u(2) ne(3) u(3)])
       (simp_all add: hostless_env_def demo_env_def str_Nil)
  then show ?thesis
    by (simp add: URL_href_examples hostless_env_def demo_env_def demo_state_def demo_start)
qed

text \<open>
  Claim C7 as stated fails on its third href: against \<open>https://x.test/\<close> the URL parser
  takes \<open>%%%\<close> as a relative path (an ill-formed percent escape is a validation error, not
  a failure), so the handler keeps \<open>https://x.test/%%%\<close> beside the other two links.
\<close>

theorem percent_href_kept_counterexample:
  "URL_href (str ''%%%'') (str ''https://x.test/'') = Parsed (str ''https://x.test/%%%'')
   \<and> linksHandler demo_env (str ''https://x.test/'') [] claim_page =
       [\<lparr> crawled_url = str ''https://x.test/'',
          crawled_links = [str ''https://x.test/a'', str ''https://x.test/b'',
                           str ''https://x.test/%%%''] \<rparr>]"
  by (simp add: URL_href_examples linksHandler_def claim_page_def demo_env_def demo_URL_def str_Nil)

end
